theory Spec2Isabelle
  imports Main "HOL-Library.Word" "HOL-Library.Signed_Division"
begin

unbundle bit_operations_syntax

section \<open>Machine types and constants\<close>

text \<open>
  The program is \<^verbatim>\<open>src/camera.c\<close>. C \<^verbatim>\<open>int\<close> values are modelled as HOL integers
  kept in the 32-bit range by \<open>to_int\<close> wherever C converts into \<^verbatim>\<open>int\<close>; the
  \<^verbatim>\<open>__u32\<close> fields of the V4L2 structs are 32-bit words; \<^verbatim>\<open>size_t\<close> and pointers
  are 64-bit words (\<^verbatim>\<open>NULL\<close> is 0).
\<close>

type_synonym u32 = "32 word"
type_synonym size_t = "64 word"
type_synonym ptr = "64 word"

definition INT_MIN :: int where
  "INT_MIN = - (2 ^ 31)"

definition INT_MAX :: int where
  "INT_MAX = 2 ^ 31 - 1"

definition LONG_MIN :: int where
  "LONG_MIN = - (2 ^ 63)"

definition LONG_MAX :: int where
  "LONG_MAX = 2 ^ 63 - 1"

definition to_int :: "int \<Rightarrow> int" where
  "to_int x = sint (word_of_int x :: 32 word)"

definition NULL :: ptr where
  "NULL = 0"

definition MAP_FAILED :: ptr where
  "MAP_FAILED = - 1"

definition DEFAULT_SCREEN_WIDTH :: int where
  "DEFAULT_SCREEN_WIDTH = 800"

definition DEFAULT_SCREEN_HEIGHT :: int where
  "DEFAULT_SCREEN_HEIGHT = 600"

definition DEFAULT_VIDEODEVICE :: string where
  "DEFAULT_VIDEODEVICE = ''/dev/video0''"

definition NUMBUFS :: nat where
  "NUMBUFS = 16"

definition EXIT_SUCCESS :: int where
  "EXIT_SUCCESS = 0"

definition EXIT_FAILURE :: int where
  "EXIT_FAILURE = 1"

text \<open>Constants of \<^verbatim>\<open>linux/videodev2.h\<close> and of SDL2 that the program names.\<close>

definition V4L2_CAP_VIDEO_CAPTURE :: u32 where
  "V4L2_CAP_VIDEO_CAPTURE = 0x00000001"

definition V4L2_CAP_STREAMING :: u32 where
  "V4L2_CAP_STREAMING = 0x04000000"

definition V4L2_BUF_TYPE_VIDEO_CAPTURE :: u32 where
  "V4L2_BUF_TYPE_VIDEO_CAPTURE = 1"

definition V4L2_MEMORY_MMAP :: u32 where
  "V4L2_MEMORY_MMAP = 1"

definition V4L2_FIELD_ANY :: u32 where
  "V4L2_FIELD_ANY = 0"

definition V4L2_PIX_FMT_YUYV :: u32 where
  "V4L2_PIX_FMT_YUYV = 0x56595559"

definition SDL_WINDOW_FULLSCREEN_DESKTOP :: int where
  "SDL_WINDOW_FULLSCREEN_DESKTOP = 0x1001"

definition SDLK_q :: int where
  "SDLK_q = 113"

section \<open>Data model\<close>

text \<open>The fields of \<^verbatim>\<open>struct v4l2_format\<close> that the program writes or reads.\<close>

record v4l2_format =
  fmt_type :: u32
  pix_width :: u32
  pix_height :: u32
  pix_field :: u32
  pix_pixelformat :: u32

record v4l2_requestbuffers =
  rb_count :: u32
  rb_type :: u32
  rb_memory :: u32

text \<open>\<^verbatim>\<open>struct v4l2_buffer\<close>: \<open>buf_offset\<close> is \<^verbatim>\<open>m.offset\<close>.\<close>

record v4l2_buffer =
  buf_index :: u32
  buf_type :: u32
  buf_memory :: u32
  buf_length :: u32
  buf_offset :: u32

text \<open>
  \<^verbatim>\<open>struct state\<close>. \<open>cap_capabilities\<close> is \<^verbatim>\<open>cap.capabilities\<close>, the one field of
  \<^verbatim>\<open>cap\<close> that is read. The array \<^verbatim>\<open>mem[NUMBUFS]\<close> is a function of the index;
  an access with an index of \<open>NUMBUFS\<close> or more is a fault of the access, written
  where it can happen. The field \<^verbatim>\<open>quit\<close> is \<open>quit_flag\<close> (the function keeps the name).
  \<open>mapped_length\<close> is not a field of the struct: it is what the kernel knows, the number
  of bytes mapped behind each slot of \<open>mem\<close> (0 where nothing is mapped), kept here to
  say when a read of a slot's memory stays inside its mapping. The program cannot read it.
\<close>

record state =
  cap_capabilities :: u32
  fmt :: v4l2_format
  rb :: v4l2_requestbuffers
  buf :: v4l2_buffer
  fd :: int
  mem :: "nat \<Rightarrow> ptr"
  window :: ptr
  renderer :: ptr
  texture :: ptr
  width :: int
  height :: int
  quit_flag :: int
  mapped_length :: "nat \<Rightarrow> u32"

text \<open>\<^verbatim>\<open>struct args\<close>; a \<^verbatim>\<open>char *\<close> is a string or the null pointer (\<open>None\<close>).\<close>

record args =
  videodevice :: "string option"
  arg_width :: int
  arg_height :: int
  fullscreen :: int

definition zero_format :: v4l2_format where
  "zero_format = \<lparr>fmt_type = 0, pix_width = 0, pix_height = 0, pix_field = 0,
     pix_pixelformat = 0\<rparr>"

definition zero_requestbuffers :: v4l2_requestbuffers where
  "zero_requestbuffers = \<lparr>rb_count = 0, rb_type = 0, rb_memory = 0\<rparr>"

definition zero_buffer :: v4l2_buffer where
  "zero_buffer = \<lparr>buf_index = 0, buf_type = 0, buf_memory = 0, buf_length = 0,
     buf_offset = 0\<rparr>"

text \<open>The state after \<^verbatim>\<open>memset(s, 0, sizeof(struct state))\<close>.\<close>

definition zero_state :: state where
  "zero_state = \<lparr>cap_capabilities = 0, fmt = zero_format, rb = zero_requestbuffers,
     buf = zero_buffer, fd = 0, mem = (\<lambda>_. NULL), window = NULL, renderer = NULL,
     texture = NULL, width = 0, height = 0, quit_flag = 0, mapped_length = (\<lambda>_. 0)\<rparr>"

section \<open>The calls the program makes\<close>

text \<open>
  Every call into the kernel, the C library's output and SDL is recorded, in order, as
  an event. An \<open>Ioctl\<close> holds the descriptor, the request and the value returned. A
  request holds the fields of its argument that identify it: the index passed for
  \<open>QUERYBUF\<close> and \<open>QBUF\<close>, and for \<open>DQBUF\<close> the index the struct holds after the
  call (the driver writes it). \<open>Stderr\<close> holds the format string of an
  \<^verbatim>\<open>fprintf(stderr, ...)\<close>. \<open>Memcpy\<close> is the copy of a frame: the index that selected
  the slot of \<open>mem\<close>, the source pointer and the byte count.
\<close>

datatype request =
    QUERYCAP
  | S_FMT v4l2_format
  | REQBUFS u32
  | QUERYBUF u32
  | QBUF u32
  | DQBUF u32
  | STREAMON
  | STREAMOFF

datatype event =
    Sys_open "string option" int
  | Sys_perror
  | Stderr string
  | Stdout_usage
  | Ioctl int request int
  | Sys_mmap u32 int u32 ptr
  | Sys_munmap ptr u32
  | Sys_close int
  | SDL_Init int
  | SDL_CreateWindowAndRenderer int int int int
  | SDL_SetHint
  | SDL_RenderSetLogicalSize int int
  | SDL_SetWindowTitle
  | SDL_CreateTexture int int ptr
  | SDL_LockTexture ptr
  | Memcpy u32 ptr size_t
  | SDL_UnlockTexture ptr
  | SDL_RenderClear
  | SDL_RenderCopy
  | SDL_RenderPresent
  | SDL_DestroyTexture ptr
  | SDL_DestroyRenderer ptr
  | SDL_DestroyWindow ptr
  | SDL_Quit

text \<open>
  What the operating system, the driver and SDL answer during \<open>init\<close>. The program
  makes each of these calls at most once (once per buffer index for the calls of the
  two loops), so an answer per call describes every device. An ioctl that is given a
  pointer writes the struct behind it when it succeeds and leaves it alone when it fails.
\<close>

record device =
  open_ret :: int
  querycap_ret :: int
  querycap_caps :: u32
  s_fmt_ret :: int
  s_fmt_granted :: "u32 \<times> u32"
  reqbufs_ret :: int
  reqbufs_count :: u32
  querybuf_ans :: "nat \<Rightarrow> int \<times> v4l2_buffer"
  mmap_ans :: "nat \<Rightarrow> ptr"
  qbuf_ans :: "nat \<Rightarrow> int \<times> v4l2_buffer"
  streamon_ret :: int
  sdl_init_ret :: int
  create_ret :: int
  create_window :: ptr
  create_renderer :: ptr
  create_texture :: ptr

text \<open>
  The driver's side of \<^verbatim>\<open>VIDIOC_S_FMT\<close>: the value returned, and the format struct it
  was given with the granted width and height written into it.
\<close>

definition ioctl_S_FMT :: "device \<Rightarrow> v4l2_format \<Rightarrow> int \<times> v4l2_format" where
  "ioctl_S_FMT d f =
     (s_fmt_ret d,
      if s_fmt_ret d < 0 then f
      else f\<lparr>pix_width := fst (s_fmt_granted d), pix_height := snd (s_fmt_granted d)\<rparr>)"

section \<open>parse\_args\<close>

text \<open>
  \<^verbatim>\<open>argv[i][k]\<close> for \<open>k\<close> up to the length of the string: the terminating NUL at the
  length. \<open>argv_at\<close> is \<^verbatim>\<open>argv[j]\<close> for \<open>j\<close> up to \<^verbatim>\<open>argc\<close>: \<^verbatim>\<open>argv[argc]\<close> is the null
  pointer.
\<close>

definition c_char :: "string \<Rightarrow> nat \<Rightarrow> char" where
  "c_char str k = (if k < length str then str ! k else CHR 0x00)"

definition argv_at :: "string list \<Rightarrow> nat \<Rightarrow> string option" where
  "argv_at argv j = (if j < length argv then Some (argv ! j) else None)"

text \<open>
  The C library's \<^verbatim>\<open>atoi\<close> on a string, which is \<^verbatim>\<open>(int) strtol(nptr, NULL, 10)\<close>:
  white space, an optional sign, then decimal digits; \<^verbatim>\<open>strtol\<close> saturates the value at
  \<^verbatim>\<open>LONG_MIN\<close> and \<^verbatim>\<open>LONG_MAX\<close>, and the conversion to \<^verbatim>\<open>int\<close> keeps the low 32 bits.
\<close>

definition isspace :: "char \<Rightarrow> bool" where
  "isspace c = (c = CHR '' '' \<or> c = CHR 0x09 \<or> c = CHR 0x0A \<or> c = CHR 0x0B
     \<or> c = CHR 0x0C \<or> c = CHR 0x0D)"

definition isdigit :: "char \<Rightarrow> bool" where
  "isdigit c = (48 \<le> (of_char c :: nat) \<and> (of_char c :: nat) \<le> 57)"

fun atoi_digits :: "int \<Rightarrow> string \<Rightarrow> int" where
  "atoi_digits acc [] = acc"
| "atoi_digits acc (c # cs) =
     (if isdigit c then atoi_digits (acc * 10 + (int (of_char c) - 48)) cs else acc)"

definition strtol :: "string \<Rightarrow> int" where
  "strtol str =
     (case dropWhile isspace str of
        [] \<Rightarrow> 0
      | c # cs \<Rightarrow>
          if c = CHR ''-'' then max LONG_MIN (- atoi_digits 0 cs)
          else if c = CHR ''+'' then min LONG_MAX (atoi_digits 0 cs)
          else min LONG_MAX (atoi_digits 0 (c # cs)))"

definition atoi :: "string \<Rightarrow> int" where
  "atoi str = to_int (strtol str)"

text \<open>
  How \<^verbatim>\<open>parse_args\<close> ends: it returns with the arguments filled in, or \<^verbatim>\<open>usage\<close>
  exits the process with status 0, or \<^verbatim>\<open>atoi\<close> is called on the null pointer (the
  process faults).
\<close>

datatype parsed =
    Parsed args "event list"
  | Usage_exit "event list"
  | Atoi_null "event list"

text \<open>
  The loop of \<^verbatim>\<open>parse_args\<close> from index \<open>i\<close>. A flag that takes a value reads
  \<^verbatim>\<open>argv[++i]\<close> and the loop's own \<^verbatim>\<open>i++\<close> follows, so the scan goes on at \<open>i + 2\<close>.
\<close>

function parse_loop :: "string list \<Rightarrow> nat \<Rightarrow> args \<Rightarrow> event list \<Rightarrow> parsed" where
  "parse_loop argv i a t =
     (if i < length argv then
        (if c_char (argv ! i) 0 = CHR ''-'' then
           (if c_char (argv ! i) 1 = CHR ''d'' then
              parse_loop argv (i + 2) (a\<lparr>videodevice := argv_at argv (i + 1)\<rparr>) t
            else if c_char (argv ! i) 1 = CHR ''W'' then
              (case argv_at argv (i + 1) of
                 None \<Rightarrow> Atoi_null t
               | Some v \<Rightarrow> parse_loop argv (i + 2) (a\<lparr>arg_width := atoi v\<rparr>) t)
            else if c_char (argv ! i) 1 = CHR ''H'' then
              (case argv_at argv (i + 1) of
                 None \<Rightarrow> Atoi_null t
               | Some v \<Rightarrow> parse_loop argv (i + 2) (a\<lparr>arg_height := atoi v\<rparr>) t)
            else if c_char (argv ! i) 1 = CHR ''f'' then
              parse_loop argv (i + 1) (a\<lparr>fullscreen := 1\<rparr>) t
            else if c_char (argv ! i) 1 = CHR ''h'' then
              Usage_exit (t @ [Stdout_usage])
            else parse_loop argv (i + 1) a (t @ [Stderr ''Unexpected flag : %s'']))
         else parse_loop argv (i + 1) a (t @ [Stderr ''Unexpected argument : %s'']))
      else Parsed a t)"
  by pat_completeness auto
termination
  by (relation "measure (\<lambda>(argv, i, a, t). length argv - i)") auto

declare parse_loop.simps [simp del]

definition parse_args :: "string list \<Rightarrow> parsed" where
  "parse_args argv =
     parse_loop argv 1
       \<lparr>videodevice = Some DEFAULT_VIDEODEVICE, arg_width = DEFAULT_SCREEN_WIDTH,
        arg_height = DEFAULT_SCREEN_HEIGHT, fullscreen = 0\<rparr> []"

section \<open>init\<close>

text \<open>
  The loop that maps the buffers (lines 173 to 191), over the indices it is given;
  \<open>init\<close> gives it \<open>[0..<NUMBUFS]\<close>. The result is whether the loop ran to its end
  (\<open>False\<close>: \<^verbatim>\<open>init\<close> returns 0 from inside it). A successful \<^verbatim>\<open>mmap\<close> maps
  \<^verbatim>\<open>s->buf.length\<close> bytes behind the slot.
\<close>

fun map_buffers :: "device \<Rightarrow> state \<Rightarrow> nat list \<Rightarrow> bool \<times> state \<times> event list" where
  "map_buffers d s [] = (True, s, [])"
| "map_buffers d s (i # rest) =
     (let b0 = zero_buffer\<lparr>buf_index := of_nat i, buf_type := V4L2_BUF_TYPE_VIDEO_CAPTURE,
                 buf_memory := V4L2_MEMORY_MMAP\<rparr>;
          rc = fst (querybuf_ans d i);
          b1 = (if rc < 0 then b0 else snd (querybuf_ans d i));
          s1 = s\<lparr>buf := b1\<rparr>;
          e1 = Ioctl (fd s) (QUERYBUF (buf_index b0)) rc
      in if rc < 0 then (False, s1, [e1, Stderr ''Unable to query buffer %d''])
         else
           (let p = mmap_ans d i;
                s2 = s1\<lparr>mem := (mem s1)(i := p)\<rparr>;
                e2 = Sys_mmap (buf_length b1) (fd s) (buf_offset b1) p
            in if p = MAP_FAILED then (False, s2, [e1, e2, Stderr ''Unable to map buffer %d''])
               else (case map_buffers d
                            (s2\<lparr>mapped_length := (mapped_length s2)(i := buf_length b1)\<rparr>)
                            rest of
                       (ok, s3, t) \<Rightarrow> (ok, s3, e1 # e2 # t))))"

text \<open>The loop that queues the buffers (lines 194 to 203).\<close>

fun queue_buffers :: "device \<Rightarrow> state \<Rightarrow> nat list \<Rightarrow> bool \<times> state \<times> event list" where
  "queue_buffers d s [] = (True, s, [])"
| "queue_buffers d s (i # rest) =
     (let b0 = zero_buffer\<lparr>buf_index := of_nat i, buf_type := V4L2_BUF_TYPE_VIDEO_CAPTURE,
                 buf_memory := V4L2_MEMORY_MMAP\<rparr>;
          rc = fst (qbuf_ans d i);
          b1 = (if rc < 0 then b0 else snd (qbuf_ans d i));
          s1 = s\<lparr>buf := b1\<rparr>;
          e1 = Ioctl (fd s) (QBUF (buf_index b0)) rc
      in if rc < 0 then (False, s1, [e1, Stderr ''Unable to queue buffer %d''])
         else (case queue_buffers d s1 rest of
                 (ok, s2, t) \<Rightarrow> (ok, s2, e1 # t)))"

text \<open>
  Lines 212 to 239: SDL. \<^verbatim>\<open>SDL_CreateWindowAndRenderer\<close> writes the window and the
  renderer through the pointers it is given, whether it succeeds or not; the result of
  \<^verbatim>\<open>SDL_CreateTexture\<close> is stored unchecked.
\<close>

definition init_display ::
    "device \<Rightarrow> args \<Rightarrow> state \<Rightarrow> event list \<Rightarrow> int \<times> state \<times> args \<times> event list" where
  "init_display d a s t =
     (if sdl_init_ret d < 0 then
        (0, s, a, t @ [SDL_Init (sdl_init_ret d), Stderr ''SDL_Init : %s''])
      else
        (let s1 = s\<lparr>window := create_window d, renderer := create_renderer d\<rparr>;
             t1 = t @ [SDL_Init (sdl_init_ret d),
                       SDL_CreateWindowAndRenderer (width s) (height s)
                         (fullscreen a * SDL_WINDOW_FULLSCREEN_DESKTOP) (create_ret d)]
         in if create_ret d < 0 then
              (0, s1, a, t1 @ [Stderr ''SDL_CreateWindowAndRenderer : %s''])
            else
              (1, s1\<lparr>texture := create_texture d\<rparr>, a,
               t1 @ [SDL_SetHint, SDL_RenderSetLogicalSize (width s1) (height s1),
                     SDL_SetWindowTitle,
                     SDL_CreateTexture (width s1) (height s1) (create_texture d)])))"

text \<open>
  Lines 162 to 210: the buffers are requested (the driver writes the granted count into
  \<^verbatim>\<open>s->rb\<close>), mapped and queued, and streaming is switched on. Both loops run to the
  constant \<^verbatim>\<open>NUMBUFS\<close>.
\<close>

definition init_buffers ::
    "device \<Rightarrow> args \<Rightarrow> state \<Rightarrow> event list \<Rightarrow> int \<times> state \<times> args \<times> event list" where
  "init_buffers d a s t =
     (let s1 = s\<lparr>rb := (rb s)\<lparr>rb_count := of_nat NUMBUFS,
                   rb_type := V4L2_BUF_TYPE_VIDEO_CAPTURE, rb_memory := V4L2_MEMORY_MMAP\<rparr>\<rparr>;
          e = Ioctl (fd s1) (REQBUFS (rb_count (rb s1))) (reqbufs_ret d)
      in if reqbufs_ret d < 0 then
           (0, s1, a, t @ [e, Stderr ''Unable to allocate buffers : %d''])
         else
           (let s2 = s1\<lparr>rb := (rb s1)\<lparr>rb_count := reqbufs_count d\<rparr>\<rparr>
            in case map_buffers d s2 [0..<NUMBUFS] of
                 (mapped, s3, tm) \<Rightarrow>
                   if \<not> mapped then (0, s3, a, t @ [e] @ tm)
                   else
                     (case queue_buffers d s3 [0..<NUMBUFS] of
                        (queued, s4, tq) \<Rightarrow>
                          if \<not> queued then (0, s4, a, t @ [e] @ tm @ tq)
                          else if streamon_ret d < 0 then
                            (0, s4, a,
                             t @ [e] @ tm @ tq @
                               [Ioctl (fd s4) STREAMON (streamon_ret d),
                                Stderr ''Unable to start capture %d''])
                          else
                            init_display d a s4
                              (t @ [e] @ tm @ tq @
                                 [Ioctl (fd s4) STREAMON (streamon_ret d)]))))"

text \<open>
  Lines 129 to 160: the capture format. The call is
  \<^verbatim>\<open>ioctl(s->fd, VIDIOC_S_FMT, s->fmt)\<close>: the struct is passed by value, so what the
  driver writes lands in the copy (the second component of \<open>ioctl_S_FMT\<close>, dropped
  here) and \<^verbatim>\<open>s->fmt\<close> keeps what the program stored in it. The comparison of line 144
  is between \<^verbatim>\<open>__u32\<close> and \<^verbatim>\<open>int\<close>, made in \<^verbatim>\<open>unsigned\<close>; the condition
  \<^verbatim>\<open>w != a->width || h != a->height\<close> is written as the negation of both being equal.
\<close>

definition init_format ::
    "device \<Rightarrow> args \<Rightarrow> state \<Rightarrow> event list \<Rightarrow> int \<times> state \<times> args \<times> event list" where
  "init_format d a s t =
     (let s1 = s\<lparr>fmt := (fmt s)\<lparr>fmt_type := V4L2_BUF_TYPE_VIDEO_CAPTURE,
                   pix_width := word_of_int (arg_width a),
                   pix_height := word_of_int (arg_height a),
                   pix_field := V4L2_FIELD_ANY,
                   pix_pixelformat := V4L2_PIX_FMT_YUYV\<rparr>\<rparr>;
          rc = fst (ioctl_S_FMT d (fmt s1));
          e = Ioctl (fd s1) (S_FMT (fmt s1)) rc
      in if rc < 0 then (0, s1, a, t @ [e, Stderr ''%s cannot set format''])
         else
           (let differs = (\<not> (pix_width (fmt s1) = word_of_int (arg_width a)
                              \<and> pix_height (fmt s1) = word_of_int (arg_height a)));
                a1 = (if differs
                      then a\<lparr>arg_width := sint (pix_width (fmt s1)),
                             arg_height := sint (pix_height (fmt s1))\<rparr>
                      else a);
                tw = (if differs
                      then [Stderr ''Requested resolution %dx%d is not available'',
                            Stderr ''Using resolution %dx%d'']
                      else []);
                s2 = s1\<lparr>width := arg_width a1, height := arg_height a1\<rparr>
            in init_buffers d a1 s2 (t @ [e] @ tw)))"

text \<open>
  \<^verbatim>\<open>init\<close>, lines 101 to 127, then the rest of the function above. The result is the
  value returned (1 or 0), the state, the arguments (line 154 may write them) and the
  calls made.
\<close>

definition init :: "device \<Rightarrow> args \<Rightarrow> int \<times> state \<times> args \<times> event list" where
  "init d a =
     (let s = zero_state\<lparr>fd := open_ret d\<rparr>;
          t = [Sys_open (videodevice a) (open_ret d)]
      in if fd s < 0 then (0, s, a, t @ [Sys_perror])
         else if querycap_ret d < 0 then
           (0, s, a,
            t @ [Ioctl (fd s) QUERYCAP (querycap_ret d), Stderr ''Failed to open device : %s''])
         else
           (let s1 = s\<lparr>cap_capabilities := querycap_caps d\<rparr>;
                t1 = t @ [Ioctl (fd s) QUERYCAP (querycap_ret d)]
            in if cap_capabilities s1 AND V4L2_CAP_VIDEO_CAPTURE = 0 then
                 (0, s1, a, t1 @ [Stderr ''%s does not support video capture''])
               else if cap_capabilities s1 AND V4L2_CAP_STREAMING = 0 then
                 (0, s1, a, t1 @ [Stderr ''%s does not support streaming''])
               else init_format d a s1 t1))"

section \<open>The loop: handle\_events and render\<close>

datatype sdl_event = SDL_QUIT | SDL_KEYDOWN int | SDL_OTHER

text \<open>\<^verbatim>\<open>handle_events\<close> on the events \<^verbatim>\<open>SDL_PollEvent\<close> hands out until it returns 0.\<close>

fun handle_events :: "state \<Rightarrow> sdl_event list \<Rightarrow> state" where
  "handle_events s [] = s"
| "handle_events s (SDL_QUIT # es) = handle_events (s\<lparr>quit_flag := 1\<rparr>) es"
| "handle_events s (SDL_KEYDOWN k # es) =
     handle_events (if k = SDLK_q then s\<lparr>quit_flag := 1\<rparr> else s) es"
| "handle_events s (SDL_OTHER # es) = handle_events s es"

text \<open>
  What the outside answers during one pass of the loop of \<^verbatim>\<open>main\<close>: the pending SDL
  events, the answer to \<^verbatim>\<open>VIDIOC_DQBUF\<close>, what \<^verbatim>\<open>SDL_LockTexture\<close> leaves in
  \<^verbatim>\<open>pixels\<close> and \<^verbatim>\<open>pitch\<close>, and the answer to \<^verbatim>\<open>VIDIOC_QBUF\<close>.
\<close>

record frame =
  polled :: "sdl_event list"
  dqbuf_ans :: "int \<times> v4l2_buffer"
  lock_pixels :: ptr
  lock_pitch :: int
  requeue_ans :: "int \<times> v4l2_buffer"

text \<open>
  Where C leaves \<^verbatim>\<open>render\<close> without a defined result: the division of line 275 by zero
  (or of \<^verbatim>\<open>INT_MIN\<close> by -1), an index into \<^verbatim>\<open>mem\<close> of \<^verbatim>\<open>NUMBUFS\<close> or more, an overflow
  of the \<^verbatim>\<open>int\<close> product of line 280, and a \<^verbatim>\<open>memcpy\<close> of more bytes than are mapped
  behind the slot (\<open>Copy_past_mapping\<close>). A run that meets one of them ends there: the
  result is the fault with the calls made up to it, the \<^verbatim>\<open>memcpy\<close> that reads past the
  mapping being the last of them.
\<close>

datatype fault = Division_fault | Out_of_bounds | Signed_overflow | Copy_past_mapping

text \<open>Lines 284 to 294: unlock, requeue \<^verbatim>\<open>s->buf\<close>, present.\<close>

definition render_finish ::
    "state \<Rightarrow> frame \<Rightarrow> event list \<Rightarrow> fault \<times> event list + state \<times> event list" where
  "render_finish s f t =
     (let rc = fst (requeue_ans f);
          e = Ioctl (fd s) (QBUF (buf_index (buf s))) rc;
          s1 = (if rc < 0 then s else s\<lparr>buf := snd (requeue_ans f)\<rparr>)
      in Inr (s1,
              t @ [SDL_UnlockTexture (texture s), e]
                @ (if rc < 0 then [Stderr ''Failed to requeue buffer %d''] else [])
                @ [SDL_RenderClear, SDL_RenderCopy, SDL_RenderPresent]))"

text \<open>
  \<^verbatim>\<open>render\<close>. \<^verbatim>\<open>pitch/s->width\<close> is C's truncating division of two \<^verbatim>\<open>int\<close>s, compared
  with \<^verbatim>\<open>sizeof(Uint16)\<close> after conversion to \<^verbatim>\<open>size_t\<close>.
\<close>

definition render :: "state \<Rightarrow> frame \<Rightarrow> fault \<times> event list + state \<times> event list" where
  "render s f =
     (let s1 = s\<lparr>buf := zero_buffer\<lparr>buf_type := V4L2_BUF_TYPE_VIDEO_CAPTURE,
                                   buf_memory := V4L2_MEMORY_MMAP\<rparr>\<rparr>
      in if fst (dqbuf_ans f) < 0 then
           Inr (s1, [Ioctl (fd s1) (DQBUF (buf_index (buf s1))) (fst (dqbuf_ans f)),
                     Stderr ''Failed to dequeue buffer %d''])
         else
           (let s2 = s1\<lparr>buf := snd (dqbuf_ans f)\<rparr>;
                t2 = [Ioctl (fd s2) (DQBUF (buf_index (buf s2))) (fst (dqbuf_ans f)),
                      SDL_LockTexture (texture s2)]
            in if width s2 = 0 \<or> (lock_pitch f = INT_MIN \<and> width s2 = - 1) then
                 Inl (Division_fault, t2)
               else if (word_of_int (lock_pitch f sdiv width s2) :: size_t) \<noteq> 2 then
                 render_finish s2 f
                   (t2 @ [Stderr ''mismatch between texture size and buffer size''])
               else if NUMBUFS \<le> unat (buf_index (buf s2)) then Inl (Out_of_bounds, t2)
               else if width s2 * height s2 < INT_MIN \<or> INT_MAX < width s2 * height s2 then
                 Inl (Signed_overflow, t2)
               else if (ucast (mapped_length s2 (unat (buf_index (buf s2)))) :: size_t)
                         < word_of_int (width s2 * height s2) * 2 then
                 Inl (Copy_past_mapping,
                      t2 @ [Memcpy (buf_index (buf s2)) (mem s2 (unat (buf_index (buf s2))))
                              (word_of_int (width s2 * height s2) * 2)])
               else
                 render_finish s2 f
                   (t2 @ [Memcpy (buf_index (buf s2)) (mem s2 (unat (buf_index (buf s2))))
                            (word_of_int (width s2 * height s2) * 2)])))"

datatype loop_end = User_quit | Starved

text \<open>
  The loop of \<^verbatim>\<open>main\<close> (lines 335 to 338) over the answers of the outside, one
  \<open>frame\<close> per pass. It ends when \<^verbatim>\<open>state.quit\<close> is set (\<open>User_quit\<close>); when the
  answers run out first the program is still in the loop (\<open>Starved\<close>); a fault in a
  pass ends the run, with the calls of all passes up to it.
\<close>

fun main_loop ::
    "state \<Rightarrow> frame list \<Rightarrow> fault \<times> event list + loop_end \<times> state \<times> event list" where
  "main_loop s [] = Inr (if quit_flag s = 0 then Starved else User_quit, s, [])"
| "main_loop s (f # fs) =
     (if quit_flag s = 0 then
        (case render (handle_events s (polled f)) f of
           Inl (e, t1) \<Rightarrow> Inl (e, t1)
         | Inr (s1, t1) \<Rightarrow>
             (case main_loop s1 fs of
                Inl (e, t2) \<Rightarrow> Inl (e, t1 @ t2)
              | Inr (r, s2, t2) \<Rightarrow> Inr (r, s2, t1 @ t2)))
      else Inr (User_quit, s, []))"

section \<open>quit and main\<close>

text \<open>
  Lines 306 to 308: the loop that unmaps, over \<open>[0..<NUMBUFS]\<close> in \<open>quit\<close>. Like every
  function that is handed \<^verbatim>\<open>struct state *\<close>, it returns the state it leaves behind with
  the calls it made; the body of the loop stores nothing.
\<close>

fun release_all :: "state \<Rightarrow> nat list \<Rightarrow> state \<times> event list" where
  "release_all s [] = (s, [])"
| "release_all s (i # rest) =
     (case release_all s rest of
        (s1, t) \<Rightarrow> (s1, Sys_munmap (mem s i) (buf_length (buf s)) # t))"

text \<open>\<^verbatim>\<open>quit\<close>, given what \<^verbatim>\<open>VIDIOC_STREAMOFF\<close> returns.\<close>

definition quit :: "state \<Rightarrow> int \<Rightarrow> state \<times> event list" where
  "quit s off =
     (case release_all s [0..<NUMBUFS] of
        (s1, tu) \<Rightarrow>
          (s1,
           [Ioctl (fd s) STREAMOFF off]
           @ (if off < 0 then [Stderr ''Unable to stop capture %d''] else [])
           @ tu
           @ (if fd s1 \<noteq> 0 then [Sys_close (fd s1)] else [])
           @ (if texture s1 \<noteq> NULL then [SDL_DestroyTexture (texture s1)] else [])
           @ (if renderer s1 \<noteq> NULL then [SDL_DestroyRenderer (renderer s1)] else [])
           @ (if window s1 \<noteq> NULL then [SDL_DestroyWindow (window s1)] else [])
           @ [SDL_Quit]))"

record world =
  dev :: device
  frames :: "frame list"
  streamoff_ret :: int

datatype outcome = Exited int | Null_dereference | Faulted fault | Running

definition main :: "string list \<Rightarrow> world \<Rightarrow> outcome \<times> event list" where
  "main argv w =
     (case parse_args argv of
        Usage_exit t \<Rightarrow> (Exited 0, t)
      | Atoi_null t \<Rightarrow> (Null_dereference, t)
      | Parsed a t \<Rightarrow>
          (case init (dev w) a of
             (r, s, a1, ti) \<Rightarrow>
               if r = 0 then
                 (Exited EXIT_FAILURE, t @ ti @ snd (quit s (streamoff_ret w)))
               else
                 (case main_loop s (frames w) of
                    Inl (e, tr) \<Rightarrow> (Faulted e, t @ ti @ tr)
                  | Inr (Starved, s1, tr) \<Rightarrow> (Running, t @ ti @ tr)
                  | Inr (User_quit, s1, tr) \<Rightarrow>
                      (Exited EXIT_SUCCESS,
                       t @ ti @ tr @ snd (quit s1 (streamoff_ret w))))))"

section \<open>Reading a trace\<close>

text \<open>The buffer indices, unmaps, maps and closes among the calls of a trace.\<close>

definition querybuf_index :: "event \<Rightarrow> u32 option" where
  "querybuf_index e = (case e of Ioctl _ (QUERYBUF i) _ \<Rightarrow> Some i | _ \<Rightarrow> None)"

definition qbuf_index :: "event \<Rightarrow> u32 option" where
  "qbuf_index e = (case e of Ioctl _ (QBUF i) _ \<Rightarrow> Some i | _ \<Rightarrow> None)"

definition munmap_call :: "event \<Rightarrow> (ptr \<times> u32) option" where
  "munmap_call e = (case e of Sys_munmap p n \<Rightarrow> Some (p, n) | _ \<Rightarrow> None)"

definition mmap_call :: "event \<Rightarrow> (ptr \<times> u32) option" where
  "mmap_call e = (case e of Sys_mmap n _ _ p \<Rightarrow> Some (p, n) | _ \<Rightarrow> None)"

definition close_call :: "event \<Rightarrow> int option" where
  "close_call e = (case e of Sys_close d \<Rightarrow> Some d | _ \<Rightarrow> None)"

definition negotiation_call :: "event \<Rightarrow> event option" where
  "negotiation_call e =
     (case e of
        Ioctl _ (S_FMT _) _ \<Rightarrow> Some e
      | Ioctl _ (REQBUFS _) _ \<Rightarrow> Some e
      | _ \<Rightarrow> None)"

text \<open>
  What happens to the buffers, read off a trace: a dequeue that succeeded (with the index
  the driver handed out) or failed, a read of a buffer's mapped memory, an attempt to
  queue a buffer (with whether the driver took it).
\<close>

datatype buffer_event = Dequeue_ok u32 | Dequeue_failed | Read_mem u32 | Enqueue u32 bool

definition buffer_event_of :: "event \<Rightarrow> buffer_event option" where
  "buffer_event_of e =
     (case e of
        Ioctl _ (DQBUF i) rc \<Rightarrow> Some (if rc < 0 then Dequeue_failed else Dequeue_ok i)
      | Ioctl _ (QBUF i) rc \<Rightarrow> Some (Enqueue i (\<not> rc < 0))
      | Memcpy i _ _ \<Rightarrow> Some (Read_mem i)
      | _ \<Rightarrow> None)"

definition buffer_events :: "event list \<Rightarrow> buffer_event list" where
  "buffer_events t = List.map_filter buffer_event_of t"

datatype owner = Kernel | Application

text \<open>
  Strict alternation per index, checked along the buffer events from a given ownership:
  a dequeue hands out a buffer the kernel holds, the memory of a buffer is read and a
  buffer is queued only while the application holds it, and a queue attempt the driver
  takes gives the buffer back to the kernel.
\<close>

fun alternates :: "(u32 \<Rightarrow> owner) \<Rightarrow> buffer_event list \<Rightarrow> bool" where
  "alternates own [] = True"
| "alternates own (Dequeue_ok i # es) =
     (own i = Kernel \<and> alternates (own(i := Application)) es)"
| "alternates own (Dequeue_failed # es) = alternates own es"
| "alternates own (Read_mem i # es) = (own i = Application \<and> alternates own es)"
| "alternates own (Enqueue i ok # es) =
     (own i = Application \<and> alternates (if ok then own(i := Kernel) else own) es)"

text \<open>
  The driver's part of that discipline alone: every dequeue hands out a buffer that the
  kernel holds. Which index a dequeue returns is the driver's choice, not the program's.
\<close>

fun driver_honest :: "(u32 \<Rightarrow> owner) \<Rightarrow> buffer_event list \<Rightarrow> bool" where
  "driver_honest own [] = True"
| "driver_honest own (Dequeue_ok i # es) =
     (own i = Kernel \<and> driver_honest (own(i := Application)) es)"
| "driver_honest own (Dequeue_failed # es) = driver_honest own es"
| "driver_honest own (Read_mem i # es) = driver_honest own es"
| "driver_honest own (Enqueue i ok # es) =
     driver_honest (if ok then own(i := Kernel) else own) es"

text \<open>
  The shape of the buffer events of the loop: a sequence of passes, each a failed
  dequeue alone, or a dequeue of some index followed by at most one read of that index
  and exactly one attempt to queue that index.
\<close>

fun cycles :: "buffer_event list \<Rightarrow> bool" where
  "cycles [] = True"
| "cycles (Dequeue_failed # es) = cycles es"
| "cycles (Dequeue_ok i # Enqueue j ok # es) = (i = j \<and> cycles es)"
| "cycles (Dequeue_ok i # Read_mem k # Enqueue j ok # es) = (i = k \<and> i = j \<and> cycles es)"
| "cycles _ = False"

text \<open>The fields of the state that the two buffer loops of \<open>init\<close> leave alone.\<close>

definition same_session :: "state \<Rightarrow> state \<Rightarrow> bool" where
  "same_session s s1 =
     (fd s1 = fd s \<and> width s1 = width s \<and> height s1 = height s \<and> window s1 = window s
      \<and> renderer s1 = renderer s \<and> texture s1 = texture s \<and> quit_flag s1 = quit_flag s
      \<and> fmt s1 = fmt s \<and> rb s1 = rb s \<and> cap_capabilities s1 = cap_capabilities s)"

section \<open>Concrete devices and sessions\<close>

text \<open>
  A camera that supports at most 1280 by 720 in YUYV (1843200 bytes a frame) and grants
  that for any request, with 16 buffers.
\<close>

definition frame_buffer :: "nat \<Rightarrow> v4l2_buffer" where
  "frame_buffer i = \<lparr>buf_index = of_nat i, buf_type = V4L2_BUF_TYPE_VIDEO_CAPTURE,
     buf_memory = V4L2_MEMORY_MMAP, buf_length = 1843200, buf_offset = of_nat i * 1843200\<rparr>"

definition webcam :: device where
  "webcam = \<lparr>open_ret = 3, querycap_ret = 0, querycap_caps = 0x04200001,
     s_fmt_ret = 0, s_fmt_granted = (1280, 720), reqbufs_ret = 0, reqbufs_count = 16,
     querybuf_ans = (\<lambda>i. (0, frame_buffer i)),
     mmap_ans = (\<lambda>i. 0x7F0000000000 + of_nat i * 0x200000),
     qbuf_ans = (\<lambda>i. (0, frame_buffer i)),
     streamon_ret = 0, sdl_init_ret = 0, create_ret = 0,
     create_window = 0x1000, create_renderer = 0x2000, create_texture = 0x3000\<rparr>"

text \<open>The same camera granting 8 buffers: a query of an index from 8 on fails.\<close>

definition webcam8 :: device where
  "webcam8 = webcam\<lparr>reqbufs_count := 8,
     querybuf_ans := (\<lambda>i. if i < 8 then (0, frame_buffer i) else (- 1, zero_buffer))\<rparr>"

text \<open>No camera at the path: \<^verbatim>\<open>open\<close> returns -1.\<close>

definition no_camera :: device where
  "no_camera = webcam\<lparr>open_ret := - 1\<rparr>"

text \<open>The camera opened by a process whose descriptor 0 is free: \<^verbatim>\<open>open\<close> returns 0.\<close>

definition webcam_fd0 :: device where
  "webcam_fd0 = webcam\<lparr>open_ret := 0\<rparr>"

text \<open>A camera without the streaming capability.\<close>

definition still_camera :: device where
  "still_camera = webcam\<lparr>querycap_caps := 0x00000001\<rparr>"

text \<open>
  A camera that supports at most 640 by 480 (614400 bytes a frame) and grants that for
  any request; its 16 buffers are mapped one after the other.
\<close>

definition vga_buffer :: "nat \<Rightarrow> v4l2_buffer" where
  "vga_buffer i = \<lparr>buf_index = of_nat i, buf_type = V4L2_BUF_TYPE_VIDEO_CAPTURE,
     buf_memory = V4L2_MEMORY_MMAP, buf_length = 614400, buf_offset = of_nat i * 614400\<rparr>"

definition vga_camera :: device where
  "vga_camera = webcam\<lparr>s_fmt_granted := (640, 480),
     querybuf_ans := (\<lambda>i. (0, vga_buffer i)),
     mmap_ans := (\<lambda>i. 0x7F0000000000 + of_nat i * 0x96000),
     qbuf_ans := (\<lambda>i. (0, vga_buffer i))\<rparr>"

text \<open>A request for what the camera supports, and one for more.\<close>

definition native_request :: args where
  "native_request = \<lparr>videodevice = Some ''/dev/video0'', arg_width = 1280,
     arg_height = 720, fullscreen = 0\<rparr>"

definition hd_request :: args where
  "hd_request = \<lparr>videodevice = Some ''/dev/video0'', arg_width = 1920, arg_height = 1080,
     fullscreen = 0\<rparr>"

text \<open>
  Passes of the loop: a frame in buffer \<open>i\<close> shown (the texture's pitch is twice the
  width of 1280), a dequeue that fails, a frame whose texture has four bytes a pixel,
  and the pass in which the user presses q.
\<close>

definition shown_frame :: "nat \<Rightarrow> frame" where
  "shown_frame i = \<lparr>polled = [], dqbuf_ans = (0, frame_buffer i), lock_pixels = 0x5000,
     lock_pitch = 2560, requeue_ans = (0, frame_buffer i)\<rparr>"

definition failed_frame :: frame where
  "failed_frame = \<lparr>polled = [], dqbuf_ans = (- 1, zero_buffer), lock_pixels = 0,
     lock_pitch = 0, requeue_ans = (- 1, zero_buffer)\<rparr>"

definition wide_frame :: "nat \<Rightarrow> frame" where
  "wide_frame i = (shown_frame i)\<lparr>lock_pitch := 5120\<rparr>"

definition last_frame :: "nat \<Rightarrow> frame" where
  "last_frame i = (shown_frame i)\<lparr>polled := [SDL_OTHER, SDL_KEYDOWN 113]\<rparr>"

definition session :: world where
  "session = \<lparr>dev = webcam,
     frames = [shown_frame 0, failed_frame, wide_frame 1, shown_frame 2, last_frame 3],
     streamoff_ret = 0\<rparr>"

text \<open>
  The state in which the loop starts on \<open>webcam\<close>, for the request it supports and
  for the larger one.
\<close>

definition streaming :: state where
  "streaming = fst (snd (init webcam native_request))"

definition streaming_hd :: state where
  "streaming_hd = fst (snd (init webcam hd_request))"

text \<open>The command line and the sessions on the other devices.\<close>

definition camera_argv :: "string list" where
  "camera_argv = [''camera'', ''-W'', ''1280'', ''-H'', ''720'']"

definition session8 :: world where
  "session8 = session\<lparr>dev := webcam8, streamoff_ret := - 1\<rparr>"

definition session_no_camera :: world where
  "session_no_camera = session\<lparr>dev := no_camera, streamoff_ret := - 1\<rparr>"

definition session_fd0 :: world where
  "session_fd0 = session\<lparr>dev := webcam_fd0\<rparr>"

definition session_still :: world where
  "session_still = session\<lparr>dev := still_camera\<rparr>"

text \<open>
  The program started without arguments (800 by 600) on the camera of 640 by 480: the
  first pass dequeues buffer 0 and the texture's pitch is 1600.
\<close>

definition default_request :: args where
  "default_request = \<lparr>videodevice = Some ''/dev/video0'', arg_width = 800,
     arg_height = 600, fullscreen = 0\<rparr>"

definition session_vga :: world where
  "session_vga = \<lparr>dev = vga_camera,
     frames = [\<lparr>polled = [], dqbuf_ans = (0, vga_buffer 0), lock_pixels = 0x5000,
                lock_pitch = 1600, requeue_ans = (0, vga_buffer 0)\<rparr>],
     streamoff_ret = 0\<rparr>"

text \<open>Whether the byte ranges \<open>[p, p + n)\<close> and \<open>[q, q + m)\<close> have a byte in common.\<close>

definition overlaps :: "ptr \<Rightarrow> size_t \<Rightarrow> ptr \<Rightarrow> u32 \<Rightarrow> bool" where
  "overlaps p n q m = (uint p < uint q + uint m \<and> uint q < uint p + uint n)"

section \<open>Lemmas on the parts of the program\<close>

lemma map_filter_append:
  "List.map_filter f (xs @ ys) = List.map_filter f xs @ List.map_filter f ys"
  by (simp add: List.map_filter_def)

lemma buffer_events_append: "buffer_events (xs @ ys) = buffer_events xs @ buffer_events ys"
  by (simp add: buffer_events_def map_filter_append)

lemma map_buffers_frame:
  "map_buffers d s idxs = (ok, s1, t) \<Longrightarrow> same_session s s1"
proof (induction idxs arbitrary: s ok s1 t)
  case Nil
  then show ?case by (simp add: same_session_def)
next
  case (Cons i rest)
  show ?case
  proof (cases "fst (querybuf_ans d i) < 0 \<or> mmap_ans d i = MAP_FAILED")
    case True
    with Cons.prems show ?thesis
      by (auto simp: Let_def same_session_def split: if_splits)
  next
    case False
    with Cons.prems obtain s2 t2 where
      rec: "map_buffers d (s\<lparr>buf := snd (querybuf_ans d i),
              mem := (mem s)(i := mmap_ans d i),
              mapped_length := (mapped_length s)(i := buf_length (snd (querybuf_ans d i)))\<rparr>)
            rest = (ok, s2, t2)" and "s1 = s2"
      by (auto simp: Let_def split: prod.splits)
    from Cons.IH [OF rec] \<open>s1 = s2\<close> show ?thesis
      by (simp add: same_session_def)
  qed
qed

lemma queue_buffers_frame:
  "queue_buffers d s idxs = (ok, s1, t) \<Longrightarrow> same_session s s1 \<and> mem s1 = mem s"
proof (induction idxs arbitrary: s ok s1 t)
  case Nil
  then show ?case by (simp add: same_session_def)
next
  case (Cons i rest)
  show ?case
  proof (cases "fst (qbuf_ans d i) < 0")
    case True
    with Cons.prems show ?thesis
      by (auto simp: Let_def same_session_def)
  next
    case False
    with Cons.prems obtain s2 t2 where
      rec: "queue_buffers d (s\<lparr>buf := snd (qbuf_ans d i)\<rparr>) rest = (ok, s2, t2)" and "s1 = s2"
      by (auto simp: Let_def split: prod.splits)
    from Cons.IH [OF rec] \<open>s1 = s2\<close> show ?thesis
      by (simp add: same_session_def)
  qed
qed

text \<open>A loop of \<open>init\<close> that runs to its end has made its call once for each index, in order.\<close>

lemma map_buffers_indices:
  "map_buffers d s idxs = (True, s1, t) \<Longrightarrow>
     List.map_filter querybuf_index t = map of_nat idxs \<and> List.map_filter qbuf_index t = []"
proof (induction idxs arbitrary: s s1 t)
  case Nil
  then show ?case by (simp add: map_filter_simps)
next
  case (Cons i rest)
  then show ?case
    by (auto simp: Let_def map_filter_simps querybuf_index_def qbuf_index_def zero_buffer_def
         split: if_splits prod.splits)
qed

lemma queue_buffers_indices:
  "queue_buffers d s idxs = (True, s1, t) \<Longrightarrow>
     List.map_filter qbuf_index t = map of_nat idxs \<and> List.map_filter querybuf_index t = []"
proof (induction idxs arbitrary: s s1 t)
  case Nil
  then show ?case by (simp add: map_filter_simps)
next
  case (Cons i rest)
  then show ?case
    by (auto simp: Let_def map_filter_simps querybuf_index_def qbuf_index_def zero_buffer_def
         split: if_splits prod.splits)
qed

text \<open>
  A loop of \<open>init\<close> that runs to its end was answered without an error at every index;
  the loop that maps has called \<^verbatim>\<open>mmap\<close> once for each, with the length the query gave,
  and left the pointer in the slot.
\<close>

lemma map_buffers_accepted:
  "map_buffers d s idxs = (True, s1, t) \<Longrightarrow>
     (\<forall>i\<in>set idxs. \<not> fst (querybuf_ans d i) < 0 \<and> mmap_ans d i \<noteq> MAP_FAILED
                     \<and> mem s1 i = mmap_ans d i)
     \<and> (\<forall>j. j \<notin> set idxs \<longrightarrow> mem s1 j = mem s j)
     \<and> List.map_filter mmap_call t
         = map (\<lambda>i. (mmap_ans d i, buf_length (snd (querybuf_ans d i)))) idxs"
proof (induction idxs arbitrary: s s1 t)
  case Nil
  then show ?case by (simp add: map_filter_simps)
next
  case (Cons i rest)
  from Cons.prems have ok: "\<not> fst (querybuf_ans d i) < 0" "mmap_ans d i \<noteq> MAP_FAILED"
    by (auto simp: Let_def split: if_splits)
  with Cons.prems obtain t2 where
    rec: "map_buffers d (s\<lparr>buf := snd (querybuf_ans d i),
              mem := (mem s)(i := mmap_ans d i),
              mapped_length := (mapped_length s)(i := buf_length (snd (querybuf_ans d i)))\<rparr>)
            rest = (True, s1, t2)"
    and t: "t = Ioctl (fd s) (QUERYBUF (of_nat i)) (fst (querybuf_ans d i))
              # Sys_mmap (buf_length (snd (querybuf_ans d i))) (fd s)
                  (buf_offset (snd (querybuf_ans d i))) (mmap_ans d i) # t2"
    by (auto simp: Let_def zero_buffer_def split: prod.splits)
  note ih = Cons.IH [OF rec]
  have slot: "mem s1 i = mmap_ans d i"
  proof (cases "i \<in> set rest")
    case True
    with ih show ?thesis by blast
  next
    case False
    with ih have "mem s1 i = ((mem s)(i := mmap_ans d i)) i" by simp
    then show ?thesis by simp
  qed
  have others: "\<forall>j. j \<notin> set (i # rest) \<longrightarrow> mem s1 j = mem s j"
    using ih by auto
  have calls: "List.map_filter mmap_call t
         = map (\<lambda>i. (mmap_ans d i, buf_length (snd (querybuf_ans d i)))) (i # rest)"
  proof -
    have "mmap_call (Ioctl (fd s) (QUERYBUF (of_nat i)) (fst (querybuf_ans d i))) = None"
      and "mmap_call (Sys_mmap (buf_length (snd (querybuf_ans d i))) (fd s)
                  (buf_offset (snd (querybuf_ans d i))) (mmap_ans d i))
           = Some (mmap_ans d i, buf_length (snd (querybuf_ans d i)))"
      by (simp_all add: mmap_call_def)
    with ih show ?thesis by (simp add: t map_filter_simps)
  qed
  from ok slot ih others calls show ?case by auto
qed

lemma queue_buffers_accepted:
  "queue_buffers d s idxs = (True, s1, t) \<Longrightarrow>
     (\<forall>i\<in>set idxs. \<not> fst (qbuf_ans d i) < 0) \<and> List.map_filter mmap_call t = []"
proof (induction idxs arbitrary: s s1 t)
  case Nil
  then show ?case by (simp add: map_filter_simps)
next
  case (Cons i rest)
  then show ?case
    by (auto simp: Let_def map_filter_simps mmap_call_def split: if_splits prod.splits)
qed

text \<open>\<open>init\<close> returns 0 or 1.\<close>

lemma init_returns_0_or_1: "fst (init d a) = 0 \<or> fst (init d a) = 1"
  by (auto simp: init_def Let_def init_format_def init_buffers_def init_display_def
      split: if_splits prod.splits)

text \<open>What a successful \<open>init\<close> has done, whatever the driver granted.\<close>

lemma init_success_shape:
  assumes "init d a = (1, s, a1, t)"
  shows "\<exists>s3 s4 tm tq.
     map_buffers d
       (zero_state\<lparr>fd := open_ret d, cap_capabilities := querycap_caps d,
          fmt := \<lparr>fmt_type = V4L2_BUF_TYPE_VIDEO_CAPTURE,
                  pix_width = word_of_int (arg_width a),
                  pix_height = word_of_int (arg_height a),
                  pix_field = V4L2_FIELD_ANY,
                  pix_pixelformat = V4L2_PIX_FMT_YUYV\<rparr>,
          width := arg_width a, height := arg_height a,
          rb := \<lparr>rb_count = reqbufs_count d, rb_type = V4L2_BUF_TYPE_VIDEO_CAPTURE,
                 rb_memory = V4L2_MEMORY_MMAP\<rparr>\<rparr>) [0..<NUMBUFS] = (True, s3, tm)
     \<and> queue_buffers d s3 [0..<NUMBUFS] = (True, s4, tq)
     \<and> s = s4\<lparr>window := create_window d, renderer := create_renderer d,
              texture := create_texture d\<rparr>
     \<and> a1 = a
     \<and> t = [Sys_open (videodevice a) (open_ret d),
            Ioctl (open_ret d) QUERYCAP (querycap_ret d),
            Ioctl (open_ret d)
              (S_FMT \<lparr>fmt_type = V4L2_BUF_TYPE_VIDEO_CAPTURE,
                      pix_width = word_of_int (arg_width a),
                      pix_height = word_of_int (arg_height a),
                      pix_field = V4L2_FIELD_ANY,
                      pix_pixelformat = V4L2_PIX_FMT_YUYV\<rparr>) (s_fmt_ret d),
            Ioctl (open_ret d) (REQBUFS (of_nat NUMBUFS)) (reqbufs_ret d)]
           @ tm @ tq @
           [Ioctl (open_ret d) STREAMON (streamon_ret d), SDL_Init (sdl_init_ret d),
            SDL_CreateWindowAndRenderer (arg_width a) (arg_height a)
              (fullscreen a * SDL_WINDOW_FULLSCREEN_DESKTOP) (create_ret d),
            SDL_SetHint, SDL_RenderSetLogicalSize (arg_width a) (arg_height a),
            SDL_SetWindowTitle,
            SDL_CreateTexture (arg_width a) (arg_height a) (create_texture d)]"
  using assms
  by (auto simp: init_def Let_def init_format_def init_buffers_def init_display_def
        same_session_def ioctl_S_FMT_def zero_state_def zero_format_def
        zero_requestbuffers_def
      split: if_splits prod.splits dest!: map_buffers_frame queue_buffers_frame)

text \<open>The loop that unmaps: one call for each index it is given, and the state as it was.\<close>

lemma release_all_map:
  "release_all s idxs = (s, map (\<lambda>i. Sys_munmap (mem s i) (buf_length (buf s))) idxs)"
  by (induction idxs) simp_all

lemma munmap_calls_map:
  "List.map_filter munmap_call (map (\<lambda>i. Sys_munmap (p i) n) idxs) = map (\<lambda>i. (p i, n)) idxs"
  by (induction idxs) (simp_all add: map_filter_simps munmap_call_def)


lemma munmap_calls_quit:
  "List.map_filter munmap_call (snd (quit s off))
     = map (\<lambda>i. (mem s i, buf_length (buf s))) [0..<NUMBUFS]"
  by (simp add: quit_def release_all_map map_filter_append munmap_calls_map map_filter_simps
        munmap_call_def)


text \<open>The copy of a frame is sized from the recorded width and height.\<close>

lemma render_memcpy_size:
  assumes "render s f = Inr (s1, t)" and "Memcpy i p n \<in> set t"
  shows "n = word_of_int (width s * height s) * 2"
  using assms
  by (auto simp: render_def render_finish_def Let_def split: if_splits)

text \<open>One pass of the loop, as buffer events.\<close>

lemma render_cycle:
  assumes "render s f = Inr (s1, t)"
  shows "buffer_events t = [Dequeue_failed]
       \<or> (\<exists>i ok. buffer_events t = [Dequeue_ok i, Enqueue i ok])
       \<or> (\<exists>i ok. buffer_events t = [Dequeue_ok i, Read_mem i, Enqueue i ok])"
  using assms
  by (auto simp: render_def render_finish_def Let_def buffer_events_def map_filter_simps
        buffer_event_of_def split: if_splits)

lemma cycles_one_more:
  assumes "es = [Dequeue_failed]
       \<or> (\<exists>i ok. es = [Dequeue_ok i, Enqueue i ok])
       \<or> (\<exists>i ok. es = [Dequeue_ok i, Read_mem i, Enqueue i ok])"
    and "cycles rest"
  shows "cycles (es @ rest)"
  using assms by auto

lemma main_loop_cycles:
  "main_loop s fs = Inr (r, s1, t) \<Longrightarrow> cycles (buffer_events t)"
proof (induction fs arbitrary: s r s1 t)
  case Nil
  then show ?case by (simp add: buffer_events_def map_filter_simps)
next
  case (Cons f fs)
  show ?case
  proof (cases "quit_flag s = 0")
    case False
    with Cons.prems show ?thesis by (simp add: buffer_events_def map_filter_simps)
  next
    case True
    with Cons.prems obtain sa ta sb tb where
      rd: "render (handle_events s (polled f)) f = Inr (sa, ta)" and
      lp: "main_loop sa fs = Inr (r, sb, tb)" and t: "t = ta @ tb"
      by (auto split: sum.splits prod.splits)
    from Cons.IH [OF lp] have "cycles (buffer_events tb)" .
    with render_cycle [OF rd] show ?thesis
      unfolding t buffer_events_append by (rule cycles_one_more)
  qed
qed

text \<open>
  A run of the loop that ends in a fault: complete passes, then the pass of the fault,
  which has dequeued a buffer and has not queued it again.
\<close>

lemma render_fault_events:
  assumes "render s f = Inl (e, t)"
  shows "\<exists>i. buffer_events t = [Dequeue_ok i] \<or> buffer_events t = [Dequeue_ok i, Read_mem i]"
  using assms
  by (auto simp: render_def render_finish_def Let_def buffer_events_def map_filter_simps
        buffer_event_of_def split: if_splits)

lemma main_loop_fault_shape:
  "main_loop s fs = Inl (e, t) \<Longrightarrow>
     \<exists>done_passes i. cycles done_passes
       \<and> (buffer_events t = done_passes @ [Dequeue_ok i]
          \<or> buffer_events t = done_passes @ [Dequeue_ok i, Read_mem i])"
proof (induction fs arbitrary: s e t)
  case Nil
  then show ?case by simp
next
  case (Cons f fs)
  from Cons.prems have run: "quit_flag s = 0" by (auto split: if_splits)
  show ?case
  proof (cases "render (handle_events s (polled f)) f")
    case (Inl x)
    with Cons.prems run have "render (handle_events s (polled f)) f = Inl (e, t)"
      by (auto split: prod.splits)
    from render_fault_events [OF this] show ?thesis
      by (metis append_Nil cycles.simps(1))
  next
    case (Inr y)
    then obtain sa ta where rd: "render (handle_events s (polled f)) f = Inr (sa, ta)"
      by (cases y) auto
    with Cons.prems run obtain tb where
      lp: "main_loop sa fs = Inl (e, tb)" and t: "t = ta @ tb"
      by (auto split: sum.splits prod.splits)
    from Cons.IH [OF lp] obtain c i where c: "cycles c"
      and p: "buffer_events tb = c @ [Dequeue_ok i]
              \<or> buffer_events tb = c @ [Dequeue_ok i, Read_mem i]"
      by blast
    from render_cycle [OF rd] c have "cycles (buffer_events ta @ c)"
      by (rule cycles_one_more)
    with p show ?thesis
      unfolding t buffer_events_append by (metis append_assoc)
  qed
qed

lemma cycles_alternates:
  "cycles es \<Longrightarrow> driver_honest own es \<Longrightarrow> alternates own es"
  by (induction es arbitrary: own rule: cycles.induct) auto



text \<open>
  However \<open>main\<close> comes to exit after \<open>parse_args\<close> has returned, the calls of \<open>quit\<close>
  are the last ones it makes: after a failed \<open>init\<close> as after the loop.
\<close>

lemma main_exit_ends_with_quit:
  assumes "parse_args argv = Parsed a t0" and "main argv w = (Exited c, t)"
  shows "\<exists>s pre. t = pre @ snd (quit s (streamoff_ret w))"
proof -
  have fold: "\<And>x y s. \<exists>s1 pre. x @ y @ snd (quit s (streamoff_ret w))
                 = pre @ snd (quit s1 (streamoff_ret w))"
    by (metis append_assoc)
  have fold3: "\<And>x y z s. \<exists>s1 pre. x @ y @ z @ snd (quit s (streamoff_ret w))
                 = pre @ snd (quit s1 (streamoff_ret w))"
    by (metis append_assoc)
  from assms show ?thesis
    by (auto simp: main_def fold fold3 split: prod.splits if_splits sum.splits loop_end.splits)
qed

text \<open>The calls of \<open>quit\<close>, in their order.\<close>

lemma quit_order:
  "snd (quit s off) =
     Ioctl (fd s) STREAMOFF off
     # (if off < 0 then [Stderr ''Unable to stop capture %d''] else [])
     @ map (\<lambda>i. Sys_munmap (mem s i) (buf_length (buf s))) [0..<16]
     @ (if fd s = 0 then [] else [Sys_close (fd s)])
     @ (if texture s = NULL then [] else [SDL_DestroyTexture (texture s)])
     @ (if renderer s = NULL then [] else [SDL_DestroyRenderer (renderer s)])
     @ (if window s = NULL then [] else [SDL_DestroyWindow (window s)])
     @ [SDL_Quit]"
  by (simp add: quit_def release_all_map NUMBUFS_def)


section \<open>The claims\<close>

subsection \<open>Format negotiation\<close>

text \<open>
  Claim C1 says that after the set-format call the recorded resolution is the one the
  device granted, never the one requested, and that the texture and the copy size come
  from the granted values. The program passes the format struct by value, so nothing the
  driver grants reaches it: whenever \<open>init\<close> succeeds, the recorded width and height are
  the requested ones, whatever \<open>s_fmt_granted\<close> is; the arguments are left as they were;
  the window and the texture are created with the requested size, and every copy of a
  frame is sized from it.
\<close>

theorem init_records_requested_resolution:
  assumes "init d a = (1, s, a1, t)"
  shows "width s = arg_width a \<and> height s = arg_height a \<and> a1 = a
     \<and> pix_width (fmt s) = word_of_int (arg_width a)
     \<and> pix_height (fmt s) = word_of_int (arg_height a)
     \<and> SDL_CreateTexture (arg_width a) (arg_height a) (create_texture d) \<in> set t
     \<and> (\<forall>f s1 tr i p n. render s f = Inr (s1, tr) \<and> Memcpy i p n \<in> set tr
           \<longrightarrow> n = word_of_int (arg_width a * arg_height a) * 2)"
proof -
  from init_success_shape [OF assms] obtain s3 s4 tm tq where
    m: "map_buffers d
       (zero_state\<lparr>fd := open_ret d, cap_capabilities := querycap_caps d,
          fmt := \<lparr>fmt_type = V4L2_BUF_TYPE_VIDEO_CAPTURE,
                  pix_width = word_of_int (arg_width a),
                  pix_height = word_of_int (arg_height a),
                  pix_field = V4L2_FIELD_ANY,
                  pix_pixelformat = V4L2_PIX_FMT_YUYV\<rparr>,
          width := arg_width a, height := arg_height a,
          rb := \<lparr>rb_count = reqbufs_count d, rb_type = V4L2_BUF_TYPE_VIDEO_CAPTURE,
                 rb_memory = V4L2_MEMORY_MMAP\<rparr>\<rparr>) [0..<NUMBUFS] = (True, s3, tm)"
    and q: "queue_buffers d s3 [0..<NUMBUFS] = (True, s4, tq)"
    and s: "s = s4\<lparr>window := create_window d, renderer := create_renderer d,
              texture := create_texture d\<rparr>"
    and a1: "a1 = a"
    and t: "SDL_CreateTexture (arg_width a) (arg_height a) (create_texture d) \<in> set t"
    by auto
  from map_buffers_frame [OF m] queue_buffers_frame [OF q] s
  have rec: "width s = arg_width a" "height s = arg_height a"
    "pix_width (fmt s) = word_of_int (arg_width a)"
    "pix_height (fmt s) = word_of_int (arg_height a)"
    by (simp_all add: same_session_def)
  have "\<forall>f s1 tr i p n. render s f = Inr (s1, tr) \<and> Memcpy i p n \<in> set tr
           \<longrightarrow> n = word_of_int (arg_width a * arg_height a) * 2"
    using render_memcpy_size [of s] rec(1,2) by metis
  with rec a1 t show ?thesis by simp
qed

text \<open>
  On the camera that grants 1280 by 720 for a request of 1920 by 1080, the session
  records 1920 by 1080 and creates the texture at that size; the copy of the first frame
  would take 4147200 bytes out of a buffer of 1843200 and runs past its mapping.
\<close>

theorem init_records_requested_resolution_witness:
  "fst (init webcam hd_request) = 1 \<and> s_fmt_granted webcam = (1280, 720)
   \<and> width streaming_hd = 1920 \<and> height streaming_hd = 1080
   \<and> SDL_CreateTexture 1920 1080 0x3000 \<in> set (snd (snd (snd (init webcam hd_request))))
   \<and> (case render streaming_hd ((shown_frame 0)\<lparr>lock_pitch := 3840\<rparr>) of
         Inl (e, tr) \<Rightarrow>
           e = Copy_past_mapping \<and> last tr = Memcpy 0 0x7F0000000000 4147200
       | Inr r \<Rightarrow> False)"
proof -
  obtain r s a1 t where e: "init webcam hd_request = (r, s, a1, t)"
    by (cases "init webcam hd_request")
  have r: "fst (init webcam hd_request) = 1" by code_simp
  with e have e1: "init webcam hd_request = (1, s, a1, t)" by simp
  have g: "s_fmt_granted webcam = (1280, 720)" by (simp add: webcam_def)
  have st: "streaming_hd = s" using e by (simp add: streaming_hd_def)
  have cp: "case render streaming_hd ((shown_frame 0)\<lparr>lock_pitch := 3840\<rparr>) of
         Inl (e, tr) \<Rightarrow>
           e = Copy_past_mapping \<and> last tr = Memcpy 0 0x7F0000000000 4147200
       | Inr r \<Rightarrow> False"
    by code_simp
  from init_records_requested_resolution [OF e1] e r g st cp show ?thesis
    by (simp add: hd_request_def webcam_def)
qed

subsection \<open>The number of buffers\<close>

text \<open>
  On the camera that grants 8 buffers, the loop that maps goes on to index 8, the query
  of that index fails and \<open>init\<close> returns 0: streaming does not start, and an index that
  was not granted has been used.
\<close>

theorem init_fewer_buffers_granted_fails:
  "reqbufs_count webcam8 = 8 \<and> fst (init webcam8 native_request) = 0
   \<and> Ioctl 3 (QUERYBUF 8) (- 1) \<in> set (snd (snd (snd (init webcam8 native_request))))
   \<and> List.map_filter querybuf_index (snd (snd (snd (init webcam8 native_request))))
       = [0, 1, 2, 3, 4, 5, 6, 7, 8]"
  by code_simp

text \<open>
  Claim C2, as amended: after the request-buffers call every per-buffer operation runs
  over the constant \<open>NUMBUFS\<close> = 16 and not over the granted count, which is only stored
  in \<open>rb\<close>. Whenever \<open>init\<close> succeeds, the indices 0 to 15 were queried in order, each
  was mapped by one \<^verbatim>\<open>mmap\<close> of the length its query gave and the pointer left in its
  slot, the indices 0 to 15 were queued in order, and \<open>quit\<close> unmaps the 16 slots. And
  whatever count it granted, a device that answers the query, the \<^verbatim>\<open>mmap\<close> or the queueing
  of any index below 16 with an error (as a device does for the indices beyond its
  grant) makes \<open>init\<close> return 0.
\<close>

theorem init_buffer_loops_run_to_NUMBUFS:
  "(\<forall>s a1 t. init d a = (1, s, a1, t) \<longrightarrow>
       List.map_filter querybuf_index t = map of_nat [0..<16]
     \<and> List.map_filter mmap_call t
         = map (\<lambda>i. (mmap_ans d i, buf_length (snd (querybuf_ans d i)))) [0..<16]
     \<and> (\<forall>i<16. mem s i = mmap_ans d i)
     \<and> List.map_filter qbuf_index t = map of_nat [0..<16]
     \<and> List.map_filter munmap_call (snd (quit s off))
         = map (\<lambda>i. (mem s i, buf_length (buf s))) [0..<16]
     \<and> rb_count (rb s) = reqbufs_count d)
   \<and> ((\<exists>i<16. fst (querybuf_ans d i) < 0 \<or> mmap_ans d i = MAP_FAILED
                \<or> fst (qbuf_ans d i) < 0)
        \<longrightarrow> fst (init d a) = 0)"
proof -
  have success: "List.map_filter querybuf_index t = map of_nat [0..<16]
     \<and> List.map_filter mmap_call t
         = map (\<lambda>i. (mmap_ans d i, buf_length (snd (querybuf_ans d i)))) [0..<16]
     \<and> (\<forall>i<16. mem s i = mmap_ans d i)
     \<and> List.map_filter qbuf_index t = map of_nat [0..<16]
     \<and> List.map_filter munmap_call (snd (quit s off))
         = map (\<lambda>i. (mem s i, buf_length (buf s))) [0..<16]
     \<and> rb_count (rb s) = reqbufs_count d
     \<and> (\<forall>i<16. \<not> fst (querybuf_ans d i) < 0 \<and> mmap_ans d i \<noteq> MAP_FAILED
                 \<and> \<not> fst (qbuf_ans d i) < 0)"
    if ok: "init d a = (1, s, a1, t)" for s a1 t
  proof -
    from init_success_shape [OF ok] obtain s3 s4 tm tq where
      m: "map_buffers d
         (zero_state\<lparr>fd := open_ret d, cap_capabilities := querycap_caps d,
            fmt := \<lparr>fmt_type = V4L2_BUF_TYPE_VIDEO_CAPTURE,
                    pix_width = word_of_int (arg_width a),
                    pix_height = word_of_int (arg_height a),
                    pix_field = V4L2_FIELD_ANY,
                    pix_pixelformat = V4L2_PIX_FMT_YUYV\<rparr>,
            width := arg_width a, height := arg_height a,
            rb := \<lparr>rb_count = reqbufs_count d, rb_type = V4L2_BUF_TYPE_VIDEO_CAPTURE,
                   rb_memory = V4L2_MEMORY_MMAP\<rparr>\<rparr>) [0..<NUMBUFS] = (True, s3, tm)"
      and q: "queue_buffers d s3 [0..<NUMBUFS] = (True, s4, tq)"
      and s: "s = s4\<lparr>window := create_window d, renderer := create_renderer d,
                texture := create_texture d\<rparr>"
      and t: "t = [Sys_open (videodevice a) (open_ret d),
              Ioctl (open_ret d) QUERYCAP (querycap_ret d),
              Ioctl (open_ret d)
                (S_FMT \<lparr>fmt_type = V4L2_BUF_TYPE_VIDEO_CAPTURE,
                        pix_width = word_of_int (arg_width a),
                        pix_height = word_of_int (arg_height a),
                        pix_field = V4L2_FIELD_ANY,
                        pix_pixelformat = V4L2_PIX_FMT_YUYV\<rparr>) (s_fmt_ret d),
              Ioctl (open_ret d) (REQBUFS (of_nat NUMBUFS)) (reqbufs_ret d)]
             @ tm @ tq @
             [Ioctl (open_ret d) STREAMON (streamon_ret d), SDL_Init (sdl_init_ret d),
              SDL_CreateWindowAndRenderer (arg_width a) (arg_height a)
                (fullscreen a * SDL_WINDOW_FULLSCREEN_DESKTOP) (create_ret d),
              SDL_SetHint, SDL_RenderSetLogicalSize (arg_width a) (arg_height a),
              SDL_SetWindowTitle,
              SDL_CreateTexture (arg_width a) (arg_height a) (create_texture d)]"
      by blast
    note ma = map_buffers_accepted [OF m] and qa = queue_buffers_accepted [OF q]
    have qi: "List.map_filter querybuf_index t = map of_nat [0..<NUMBUFS]"
      unfolding t map_filter_append
      using map_buffers_indices [OF m] queue_buffers_indices [OF q]
      by (simp add: map_filter_simps querybuf_index_def)
    have qq: "List.map_filter qbuf_index t = map of_nat [0..<NUMBUFS]"
      unfolding t map_filter_append
      using map_buffers_indices [OF m] queue_buffers_indices [OF q]
      by (simp add: map_filter_simps qbuf_index_def)
    have mm: "List.map_filter mmap_call t
         = map (\<lambda>i. (mmap_ans d i, buf_length (snd (querybuf_ans d i)))) [0..<NUMBUFS]"
      unfolding t map_filter_append
      using ma qa by (simp add: map_filter_simps mmap_call_def)
    from map_buffers_frame [OF m] queue_buffers_frame [OF q] s
    have rb: "rb_count (rb s) = reqbufs_count d" and mem: "mem s = mem s3"
      by (simp_all add: same_session_def)
    have slots: "\<forall>i<16. mem s i = mmap_ans d i"
      using ma mem by (simp add: NUMBUFS_def)
    have acc: "\<forall>i<16. \<not> fst (querybuf_ans d i) < 0 \<and> mmap_ans d i \<noteq> MAP_FAILED
                 \<and> \<not> fst (qbuf_ans d i) < 0"
      using ma qa by (simp add: NUMBUFS_def)
    from qi qq mm rb slots acc munmap_calls_quit [of s off] show ?thesis
      by (simp add: NUMBUFS_def)
  qed
  have failure: "fst (init d a) = 0"
    if rej: "\<exists>i<16. fst (querybuf_ans d i) < 0 \<or> mmap_ans d i = MAP_FAILED
                \<or> fst (qbuf_ans d i) < 0"
  proof (rule ccontr)
    assume "fst (init d a) \<noteq> 0"
    with init_returns_0_or_1 [of d a] have "fst (init d a) = 1" by blast
    then obtain s a1 t where "init d a = (1, s, a1, t)"
      by (cases "init d a") auto
    from success [OF this] rej show False by blast
  qed
  from success failure show ?thesis by blast
qed

theorem init_buffer_loops_run_to_NUMBUFS_witness:
  "fst (init webcam native_request) = 1
   \<and> List.map_filter querybuf_index (snd (snd (snd (init webcam native_request))))
       = map of_nat [0..<16]
   \<and> List.map_filter mmap_call (snd (snd (snd (init webcam native_request))))
       = map (\<lambda>i. (mmap_ans webcam i, buf_length (snd (querybuf_ans webcam i)))) [0..<16]
   \<and> List.map_filter qbuf_index (snd (snd (snd (init webcam native_request))))
       = map of_nat [0..<16]
   \<and> length (List.map_filter munmap_call (snd (quit streaming 0))) = 16
   \<and> reqbufs_count webcam8 = 8 \<and> fst (querybuf_ans webcam8 8) < 0
   \<and> fst (init webcam8 native_request) = 0"
proof -
  obtain r s a1 t where e: "init webcam native_request = (r, s, a1, t)"
    by (cases "init webcam native_request")
  have r: "fst (init webcam native_request) = 1" by code_simp
  with e have e1: "init webcam native_request = (1, s, a1, t)" by simp
  have st: "streaming = s" using e by (simp add: streaming_def)
  have g: "reqbufs_count webcam8 = 8" and rej: "fst (querybuf_ans webcam8 8) < 0"
    by code_simp+
  then have rej16: "\<exists>i<16. fst (querybuf_ans webcam8 i) < 0
      \<or> mmap_ans webcam8 i = MAP_FAILED \<or> fst (qbuf_ans webcam8 i) < 0"
    by (intro exI [of _ "8::nat"]) simp
  from init_buffer_loops_run_to_NUMBUFS [of webcam native_request 0] e1
  have ok: "List.map_filter querybuf_index t = map of_nat [0..<16]
     \<and> List.map_filter mmap_call t
         = map (\<lambda>i. (mmap_ans webcam i, buf_length (snd (querybuf_ans webcam i)))) [0..<16]
     \<and> List.map_filter qbuf_index t = map of_nat [0..<16]
     \<and> List.map_filter munmap_call (snd (quit s 0))
         = map (\<lambda>i. (mem s i, buf_length (buf s))) [0..<16]"
    by blast
  from init_buffer_loops_run_to_NUMBUFS [of webcam8 native_request 0] rej16
  have fail: "fst (init webcam8 native_request) = 0" by blast
  from ok fail e r st g rej show ?thesis by simp
qed

subsection \<open>Ownership of the buffers\<close>

text \<open>
  Claim C3 says that in every run of the loop the application reads a buffer's mapped
  memory only between the dequeue that returned it and its requeue. The calls do come
  in that order in every run (\<open>main_loop_cycles\<close>, \<open>main_loop_fault_shape\<close>, and with
  them \<open>cycles_alternates\<close>). But the copy of a frame is sized from the width and height
  that \<open>init\<close> recorded, and those are the requested ones (the defect of claim C1). The
  program started without arguments on the camera of 640 by 480: all 16 buffers of
  614400 bytes are mapped one after the other and queued, the first pass dequeues
  buffer 0 and copies 960000 bytes from its start, the last call of the run. The bytes
  read past the end of buffer 0 are those of buffer 1, which is queued and was never
  dequeued; a copy of the granted size would not touch it.
\<close>

theorem copy_reads_past_dequeued_buffer:
  "parse_args [''camera''] = Parsed default_request []
   \<and> s_fmt_granted vga_camera = (640, 480)
   \<and> fst (main [''camera''] session_vga) = Faulted Copy_past_mapping
   \<and> List.map_filter mmap_call (snd (main [''camera''] session_vga))
       = map (\<lambda>i. (0x7F0000000000 + of_nat i * 0x96000, 614400)) [0..<16]
   \<and> buffer_events (snd (main [''camera''] session_vga))
       = map (\<lambda>i. Enqueue (of_nat i) True) [0..<16] @ [Dequeue_ok 0, Read_mem 0]
   \<and> last (snd (main [''camera''] session_vga)) = Memcpy 0 0x7F0000000000 960000
   \<and> overlaps 0x7F0000000000 960000 0x7F0000096000 614400
   \<and> \<not> overlaps 0x7F0000000000 614400 0x7F0000096000 614400"
  by code_simp

subsection \<open>Teardown\<close>

text \<open>
  Claim C4 says that the teardown releases every resource that was acquired, exactly
  once. The order it gives is the order of \<open>quit\<close> (\<open>quit_order\<close>), and \<open>quit\<close> is the
  last thing \<open>main\<close> does on every exit (\<open>main_exit_ends_with_quit\<close>). But \<open>quit\<close>
  unmaps with the length that happens to be in \<^verbatim>\<open>s->buf\<close>: on the camera that grants 8
  buffers, \<open>init\<close> maps 8 buffers of 1843200 bytes, the query of index 8 fails leaving the
  zeroed \<^verbatim>\<open>s->buf\<close>, and every \<^verbatim>\<open>munmap\<close> of the teardown is called with length 0; none of
  the 8 mappings is released.
\<close>

theorem quit_unmaps_with_stale_length:
  "fst (main camera_argv session8) = Exited EXIT_FAILURE
   \<and> List.map_filter mmap_call (snd (main camera_argv session8))
       = map (\<lambda>i. (0x7F0000000000 + of_nat i * 0x200000, 1843200)) [0..<8]
   \<and> List.map_filter munmap_call (snd (main camera_argv session8))
       = map (\<lambda>i. (0x7F0000000000 + of_nat i * 0x200000, 0)) [0..<8]
         @ replicate 8 (NULL, 0)
   \<and> Stderr ''Unable to stop capture %d'' \<in> set (snd (main camera_argv session8))
   \<and> List.map_filter close_call (snd (main camera_argv session8)) = [3]"
  by code_simp

subsection \<open>A failed dequeue\<close>



subsection \<open>A texture of the wrong stride\<close>



subsection \<open>Releasing the buffers\<close>



subsection \<open>Closing the descriptor\<close>

text \<open>
  Claim C8 says that the descriptor is closed exactly once when \<^verbatim>\<open>open\<close> succeeded.
  \<open>quit\<close> tests \<^verbatim>\<open>if (s->fd)\<close>, while \<open>init\<close> itself tests \<^verbatim>\<open>s->fd < 0\<close> for a failed
  \<^verbatim>\<open>open\<close>: in a process whose descriptor 0 is free, \<^verbatim>\<open>open\<close> succeeds with 0, the
  session runs, and the descriptor is never closed. (With no camera \<^verbatim>\<open>open\<close> leaves -1
  there, the test passes and \<^verbatim>\<open>close(-1)\<close> is called, a call that closes nothing.)
\<close>

theorem quit_closes_on_nonzero_descriptor:
  "fst (main camera_argv session_no_camera) = Exited EXIT_FAILURE
   \<and> Sys_open (Some ''/dev/video0'') (- 1) \<in> set (snd (main camera_argv session_no_camera))
   \<and> List.map_filter close_call (snd (main camera_argv session_no_camera)) = [- 1]
   \<and> fst (main camera_argv session_fd0) = Exited EXIT_SUCCESS
   \<and> Sys_open (Some ''/dev/video0'') 0 \<in> set (snd (main camera_argv session_fd0))
   \<and> List.map_filter close_call (snd (main camera_argv session_fd0)) = []"
  by code_simp

subsection \<open>The capability check\<close>

text \<open>
  Claim C9: when the capabilities the device reports lack the video-capture bit or the
  streaming bit, \<open>init\<close> returns 0 after the capability query at the latest, having
  reported the error: it has made no set-format and no request-buffers call (its calls
  are the \<^verbatim>\<open>open\<close>, and the query and the message when the device opened), and \<open>main\<close>
  exits with \<^verbatim>\<open>EXIT_FAILURE\<close>.
\<close>

theorem init_rejects_missing_capability:
  assumes "querycap_caps d AND V4L2_CAP_VIDEO_CAPTURE = 0
         \<or> querycap_caps d AND V4L2_CAP_STREAMING = 0"
  shows "init d a =
     (0,
      zero_state\<lparr>fd := open_ret d,
        cap_capabilities :=
          (if open_ret d < 0 \<or> querycap_ret d < 0 then 0 else querycap_caps d)\<rparr>,
      a,
      Sys_open (videodevice a) (open_ret d) #
        (if open_ret d < 0 then [Sys_perror]
         else [Ioctl (open_ret d) QUERYCAP (querycap_ret d),
               Stderr (if querycap_ret d < 0 then ''Failed to open device : %s''
                       else if querycap_caps d AND V4L2_CAP_VIDEO_CAPTURE = 0
                         then ''%s does not support video capture''
                       else ''%s does not support streaming'')]))
     \<and> List.map_filter negotiation_call (snd (snd (snd (init d a)))) = []
     \<and> (parse_args argv = Parsed a t0 \<and> dev w = d
          \<longrightarrow> fst (main argv w) = Exited EXIT_FAILURE)"
proof -
  have i: "init d a =
     (0,
      zero_state\<lparr>fd := open_ret d,
        cap_capabilities :=
          (if open_ret d < 0 \<or> querycap_ret d < 0 then 0 else querycap_caps d)\<rparr>,
      a,
      Sys_open (videodevice a) (open_ret d) #
        (if open_ret d < 0 then [Sys_perror]
         else [Ioctl (open_ret d) QUERYCAP (querycap_ret d),
               Stderr (if querycap_ret d < 0 then ''Failed to open device : %s''
                       else if querycap_caps d AND V4L2_CAP_VIDEO_CAPTURE = 0
                         then ''%s does not support video capture''
                       else ''%s does not support streaming'')]))"
    using assms by (auto simp: init_def Let_def zero_state_def)
  have n: "List.map_filter negotiation_call (snd (snd (snd (init d a)))) = []"
    unfolding i by (simp add: map_filter_simps negotiation_call_def)
  have m: "parse_args argv = Parsed a t0 \<and> dev w = d
          \<longrightarrow> fst (main argv w) = Exited EXIT_FAILURE"
    by (simp add: main_def i)
  from i n m show ?thesis by blast
qed

theorem init_rejects_missing_capability_witness:
  "querycap_caps still_camera AND V4L2_CAP_STREAMING = 0
   \<and> snd (snd (snd (init still_camera native_request)))
       = [Sys_open (Some ''/dev/video0'') 3, Ioctl 3 QUERYCAP 0,
          Stderr ''%s does not support streaming'']
   \<and> fst (init still_camera native_request) = 0
   \<and> parse_args camera_argv = Parsed native_request []
   \<and> fst (main camera_argv session_still) = Exited EXIT_FAILURE"
proof -
  have h: "querycap_caps still_camera AND V4L2_CAP_STREAMING = 0" by code_simp
  have p: "parse_args camera_argv = Parsed native_request []" by code_simp
  have d: "dev session_still = still_camera" by (simp add: session_still_def)
  have v: "open_ret still_camera = 3" "querycap_ret still_camera = 0"
    "querycap_caps still_camera AND V4L2_CAP_VIDEO_CAPTURE = 1"
    "videodevice native_request = Some ''/dev/video0''"
    by code_simp+
  from init_rejects_missing_capability [of still_camera native_request camera_argv "[]"
      session_still] h p d v
  show ?thesis by simp
qed

subsection \<open>A value-taking flag as the last argument\<close>

text \<open>
  With \<^verbatim>\<open>camera -d -W\<close> the last argument is \<^verbatim>\<open>-W\<close>, and it is read as the value of
  \<^verbatim>\<open>-d\<close>: the scan ends there, \<^verbatim>\<open>argv[argc]\<close> is not read and \<^verbatim>\<open>atoi\<close> is not called.
\<close>

theorem parse_args_last_flag_taken_as_value:
  "parse_args [''camera'', ''-d'', ''-W'']
     = Parsed \<lparr>videodevice = Some ''-W'', arg_width = 800, arg_height = 600,
               fullscreen = 0\<rparr> []"
  by code_simp

text \<open>
  Claim C10, as amended: whenever the scan of \<open>parse_args\<close> comes to the last argument
  (it was not taken as the value of the flag before it, and no \<^verbatim>\<open>-h\<close> came first) and
  that argument is \<^verbatim>\<open>-d\<close>, \<^verbatim>\<open>-W\<close> or \<^verbatim>\<open>-H\<close>, the value is read from \<^verbatim>\<open>argv[argc]\<close>, the
  null pointer, with no check: \<^verbatim>\<open>-d\<close> stores the null pointer as the device path and
  the scan ends; \<^verbatim>\<open>-W\<close> and \<^verbatim>\<open>-H\<close> pass it to \<^verbatim>\<open>atoi\<close>.
\<close>

theorem parse_loop_value_flag_last:
  assumes "Suc i = length argv" and "c_char (argv ! i) 0 = CHR ''-''"
    and "c_char (argv ! i) 1 = CHR ''d'' \<or> c_char (argv ! i) 1 = CHR ''W''
         \<or> c_char (argv ! i) 1 = CHR ''H''"
  shows "argv_at argv (Suc i) = None \<and>
     parse_loop argv i a t =
       (if c_char (argv ! i) 1 = CHR ''d'' then Parsed (a\<lparr>videodevice := None\<rparr>) t
        else Atoi_null t)"
proof -
  from assms(1) have nxt: "argv_at argv (Suc i) = None" and lt: "i < length argv"
    by (simp_all add: argv_at_def)
  have stop: "\<And>b. parse_loop argv (i + 2) b t = Parsed b t"
    using assms(1) by (subst parse_loop.simps) simp
  show ?thesis
    using assms(2,3) nxt lt stop
    by (subst parse_loop.simps) auto
qed

theorem parse_loop_value_flag_last_witness:
  "Suc 1 = length [''camera'', ''-W''] \<and> c_char ([''camera'', ''-W''] ! 1) 0 = CHR ''-''
   \<and> c_char ([''camera'', ''-W''] ! 1) 1 = CHR ''W''
   \<and> argv_at [''camera'', ''-W''] (Suc 1) = None
   \<and> parse_args [''camera'', ''-W''] = Atoi_null []
   \<and> parse_args [''camera'', ''-f'', ''-d'']
       = Parsed \<lparr>videodevice = None, arg_width = 800, arg_height = 600, fullscreen = 1\<rparr> []"
proof -
  have h1: "Suc 1 = length [''camera'', ''-W'']" by simp
  have h2: "c_char ([''camera'', ''-W''] ! 1) 0 = CHR ''-''" by code_simp
  have h3: "c_char ([''camera'', ''-W''] ! 1) 1 = CHR ''W''" by code_simp
  have d: "parse_args [''camera'', ''-f'', ''-d'']
       = Parsed \<lparr>videodevice = None, arg_width = 800, arg_height = 600, fullscreen = 1\<rparr> []"
    by code_simp
  from parse_loop_value_flag_last [OF h1 h2, of
      "\<lparr>videodevice = Some DEFAULT_VIDEODEVICE, arg_width = DEFAULT_SCREEN_WIDTH,
        arg_height = DEFAULT_SCREEN_HEIGHT, fullscreen = 0\<rparr>" "[]"] h1 h2 h3 d
  show ?thesis by (simp add: parse_args_def)
qed

end
